theory Spec2Isabelle
  imports Complex_Main "HOL-Library.Sublist"
begin

section \<open>The music-analysis tool server (server.py)\<close>

text \<open>
  The server registers six tools and one prompt. Every numeric operation is a call
  into librosa, every acquisition a call into requests or pytubefix. The embedding
  keeps the code of each tool as it is written and takes the calls that leave the
  repository as parameters: the decoder, the beat tracker, the chroma transform and
  the frame-to-time conversion of librosa, the HTTP client, the temporary directory.
  Floating-point numbers are read as reals (no rounding, no infinities); the one
  non-finite value that the code can produce from finite inputs, the nan of a
  remainder by zero, is written out.
\<close>

subsection \<open>Errors\<close>

text \<open>
  The only exception that server.py raises itself is ValueError, with two different
  messages (lines 112 and 121). The other constructors stand for exceptions that
  pass through from a callee: librosa failing to load or analyse a file, requests
  failing to obtain a response, an index outside an array.
\<close>

datatype error =
    ValueError string
  | LoadError
  | AnalysisError
  | RequestException
  | IndexError

subsection \<open>Files and network\<close>

type_synonym bytes = string

record response =
  status_code :: int
  content :: bytes

text \<open>
  The process-visible state: the content of every file, and the list of the HTTP GET
  requests issued so far (oldest first).
\<close>

record world =
  files :: "string \<rightharpoonup> bytes"
  requests_log :: "string list"

text \<open>Python's \<^verbatim>\<open>str.endswith\<close>: an exact, case-sensitive comparison of the tail.\<close>

definition endswith :: "string \<Rightarrow> string \<Rightarrow> bool" where
  "endswith s suf =
     (length suf \<le> length s \<and> drop (length s - length suf) s = suf)"

text \<open>
  \<^verbatim>\<open>os.path.join(a, b)\<close> on a POSIX system, for two components: an absolute second
  component replaces the first, otherwise the two are joined by exactly one slash.
\<close>

definition os_path_join :: "string \<Rightarrow> string \<Rightarrow> string" where
  "os_path_join a b =
     (if b \<noteq> [] \<and> hd b = CHR ''/'' then b
      else if a = [] \<or> last a = CHR ''/'' then a @ b
      else a @ ''/'' @ b)"

subsection \<open>download_from_url (lines 104-121)\<close>

text \<open>
  \<open>get\<close> is \<^verbatim>\<open>requests.get\<close> at the moment of the call: the response to a URL, or
  \<open>None\<close> when the request obtained no response and raised instead. \<open>tmpdir\<close> is the value of
  \<^verbatim>\<open>tempfile.gettempdir()\<close>. Opening the file with mode \<^verbatim>\<open>"wb"\<close> truncates it, so the
  write replaces the whole content.
\<close>

definition download_from_url ::
  "(string \<Rightarrow> response option) \<Rightarrow> string \<Rightarrow> world \<Rightarrow> string \<Rightarrow> (error + string) \<times> world"
where
  "download_from_url get tmpdir w url =
     (if \<not> endswith url ''.mp3'' \<and> \<not> endswith url ''.wav''
      then (Inl (ValueError (''URL: '' @ url @ '' is not a valid audio file'')), w)
      else
        let w1 = w\<lparr>requests_log := requests_log w @ [url]\<rparr> in
        case get url of
          None \<Rightarrow> (Inl RequestException, w1)
        | Some response \<Rightarrow>
            if status_code response = 200
            then
              let file_path = os_path_join tmpdir ''downloaded_file'' in
              (Inr file_path, w1\<lparr>files := (files w1)(file_path \<mapsto> content response)\<rparr>)
            else (Inl (ValueError (''Failed to download file from URL: '' @ url)), w1))"

text \<open>The two errors of the specification's taxonomy, as the code raises them.\<close>

definition ValidationError :: "string \<Rightarrow> error" where
  "ValidationError url = ValueError (''URL: '' @ url @ '' is not a valid audio file'')"

definition FetchError :: "string \<Rightarrow> error" where
  "FetchError url = ValueError (''Failed to download file from URL: '' @ url)"

subsection \<open>librosa and numpy\<close>

text \<open>
  A two-dimensional numpy array: its shape and its items. Indexing the first axis
  outside the shape raises IndexError; a row has exactly \<open>shape1\<close> items.
\<close>

record ndarray =
  shape0 :: nat
  shape1 :: nat
  item :: "nat \<Rightarrow> nat \<Rightarrow> real"

definition row :: "ndarray \<Rightarrow> nat \<Rightarrow> error + real list" where
  "row a i = (if i < shape0 a then Inr (map (item a i) [0..<shape1 a]) else Inl IndexError)"

text \<open>
  The functions of librosa that server.py calls, over a signal type \<open>'y\<close>:
  \<^item> \<open>librosa_load\<close>: the decoder behind \<^verbatim>\<open>librosa.load\<close>, from the content of the
    file, the offset and the optional duration to the signal, \<open>None\<close> when the content
    is not decodable audio;
  \<^item> \<open>librosa_beat_track\<close>: \<^verbatim>\<open>librosa.beat.beat_track(y=y)\<close>, the tempo and the beat
    frames;
  \<^item> \<open>librosa_frames_to_time\<close>: \<^verbatim>\<open>librosa.frames_to_time\<close>, applied to each frame index;
  \<^item> \<open>librosa_chroma_cqt\<close>: \<^verbatim>\<open>librosa.feature.chroma_cqt(y=y, fmin=fmin, n_octaves=n_octaves)\<close>;
  \<^item> \<open>librosa_get_duration\<close>: \<^verbatim>\<open>librosa.get_duration(y=y)\<close>.
  \<open>None\<close> is a call that raises.
\<close>

record 'y librosa =
  librosa_load :: "bytes \<Rightarrow> real \<Rightarrow> real option \<Rightarrow> 'y option"
  librosa_beat_track :: "'y \<Rightarrow> (real \<times> nat list) option"
  librosa_frames_to_time :: "nat \<Rightarrow> real"
  librosa_chroma_cqt :: "'y \<Rightarrow> real option \<Rightarrow> int \<Rightarrow> ndarray option"
  librosa_get_duration :: "'y \<Rightarrow> real"

text \<open>\<^verbatim>\<open>librosa.load(path=file_path, offset=offset, duration=duration)\<close>: reads the file.\<close>

definition load :: "'y librosa \<Rightarrow> world \<Rightarrow> string \<Rightarrow> real \<Rightarrow> real option \<Rightarrow> error + 'y" where
  "load L w file_path offset duration =
     (case files w file_path of
        None \<Rightarrow> Inl LoadError
      | Some b \<Rightarrow>
          (case librosa_load L b offset duration of
             None \<Rightarrow> Inl LoadError
           | Some y \<Rightarrow> Inr y))"

text \<open>
  The remainder \<^verbatim>\<open>t % interval\<close> of line 89. \<open>t\<close> is an item of the numpy array
  \<open>time_seconds\<close>, hence a \<^verbatim>\<open>numpy.float64\<close>, and its \<^verbatim>\<open>%\<close> is numpy's remainder:
  the floored remainder (sign of the divisor) when the divisor is not zero, and nan,
  with a warning and no exception, when it is zero. \<open>None\<close> is nan.
\<close>

definition floor_mod :: "real \<Rightarrow> real \<Rightarrow> real" where
  "floor_mod x d = x - d * of_int \<lfloor>x / d\<rfloor>"

definition np_remainder :: "real \<Rightarrow> real \<Rightarrow> real option" where
  "np_remainder x d = (if d = 0 then None else Some (floor_mod x d))"

subsection \<open>get_tempo, get_beats, get_duration (lines 27-55, 95-101)\<close>

text \<open>The analysis tools read the file and write nothing: the world is returned as it was.\<close>

definition get_tempo ::
  "'y librosa \<Rightarrow> world \<Rightarrow> string \<Rightarrow> real \<Rightarrow> real option \<Rightarrow> (error + real) \<times> world"
where
  "get_tempo L w file_path offset duration =
     (case load L w file_path offset duration of
        Inl e \<Rightarrow> (Inl e, w)
      | Inr y \<Rightarrow>
          (case librosa_beat_track L y of
             None \<Rightarrow> (Inl AnalysisError, w)
           | Some (tempo, frames) \<Rightarrow> (Inr tempo, w)))"

definition get_beats ::
  "'y librosa \<Rightarrow> world \<Rightarrow> string \<Rightarrow> real \<Rightarrow> real option \<Rightarrow> (error + real list) \<times> world"
where
  "get_beats L w file_path offset duration =
     (case load L w file_path offset duration of
        Inl e \<Rightarrow> (Inl e, w)
      | Inr y \<Rightarrow>
          (case librosa_beat_track L y of
             None \<Rightarrow> (Inl AnalysisError, w)
           | Some (tempo, frames) \<Rightarrow>
               let times = map (librosa_frames_to_time L) frames in
               (Inr times, w)))"

definition get_duration ::
  "'y librosa \<Rightarrow> world \<Rightarrow> string \<Rightarrow> (error + real) \<times> world"
where
  "get_duration L w file_path =
     (case load L w file_path 0 None of
        Inl e \<Rightarrow> (Inl e, w)
      | Inr y \<Rightarrow> (Inr (librosa_get_duration L y), w))"

subsection \<open>get_chroma (lines 58-92)\<close>

text \<open>One entry of the returned list: the dictionary with the keys note, time, amplitude.\<close>

record chroma_sample =
  sample_note :: string
  sample_time :: real
  sample_amplitude :: real

definition notes' :: "string list" where
  "notes' = [''C'', ''C#'', ''D'', ''D#'', ''E'', ''F'', ''F#'', ''G'', ''G#'', ''A'', ''A#'', ''B'']"

text \<open>
  The test of line 89, \<^verbatim>\<open>t >= offset and abs(t % interval) < 1e-2\<close>. A comparison
  with nan is false.
\<close>

definition sampled :: "real \<Rightarrow> real \<Rightarrow> real \<Rightarrow> bool" where
  "sampled offset interval t =
     (t \<ge> offset \<and>
      (case np_remainder t interval of None \<Rightarrow> False | Some r \<Rightarrow> \<bar>r\<bar> < 1 / 100))"

text \<open>The inner loop (lines 88-90), over the pairs of \<^verbatim>\<open>zip(time_seconds, chroma_cq[i])\<close>.\<close>

fun frame_loop ::
  "real \<Rightarrow> real \<Rightarrow> string \<Rightarrow> (real \<times> real) list \<Rightarrow> chroma_sample list \<Rightarrow> chroma_sample list"
where
  "frame_loop offset interval note_name [] data_list = data_list"
| "frame_loop offset interval note_name ((t, amplitude) # rest) data_list =
     frame_loop offset interval note_name rest
       (if sampled offset interval t
        then data_list @
          [\<lparr>sample_note = note_name, sample_time = t, sample_amplitude = amplitude\<rparr>]
        else data_list)"

text \<open>The outer loop (lines 86-90), over the pairs of \<^verbatim>\<open>enumerate(notes)\<close>.\<close>

fun note_loop ::
  "real \<Rightarrow> real \<Rightarrow> ndarray \<Rightarrow> real list \<Rightarrow> (nat \<times> string) list \<Rightarrow> chroma_sample list
     \<Rightarrow> error + chroma_sample list"
where
  "note_loop offset interval chroma_cq time_seconds [] data_list = Inr data_list"
| "note_loop offset interval chroma_cq time_seconds ((i, note_name) # rest) data_list =
     (case row chroma_cq i of
        Inl e \<Rightarrow> Inl e
      | Inr amplitudes \<Rightarrow>
          note_loop offset interval chroma_cq time_seconds rest
            (frame_loop offset interval note_name (zip time_seconds amplitudes) data_list))"

definition get_chroma ::
  "'y librosa \<Rightarrow> world \<Rightarrow> string \<Rightarrow> real \<Rightarrow> real option \<Rightarrow> real option \<Rightarrow> int \<Rightarrow> real
     \<Rightarrow> (error + chroma_sample list) \<times> world"
where
  "get_chroma L w file_path offset duration fmin n_octaves interval =
     (case load L w file_path offset duration of
        Inl e \<Rightarrow> (Inl e, w)
      | Inr y \<Rightarrow>
          (case librosa_chroma_cqt L y fmin n_octaves of
             None \<Rightarrow> (Inl AnalysisError, w)
           | Some chroma_cq \<Rightarrow>
               let time_frames = [0..<shape1 chroma_cq];
                   time_seconds = map (librosa_frames_to_time L) time_frames
               in (note_loop offset interval chroma_cq time_seconds (enumerate 0 notes') [], w)))"

subsection \<open>analyze_audio (lines 141-158)\<close>

definition analyze_audio :: "world \<Rightarrow> string \<times> world" where
  "analyze_audio w =
     (''Welcome to the Music Analysis MCP! Please provide '' @
      ''the path to an audio file and call the tools listed below to extract '' @
      ''various audio features.\<newline>\<newline>'' @
      ''Available tools:\<newline>'' @
      ''- get_tempo(file_path: str, offset: float = 0.0, duration: float = None) -> float\<newline>'' @
      ''- get_beats(file_path: str, offset: float = 0.0, duration: float = None) -> list\<newline>'' @
      ''- get_chroma(file_path: str, offset: float = 0.0, duration: float = None, fmin: float = None, n_octaves: int = 7, interval: float = 1.0) -> list\<newline>'' @
      ''- get_duration(file_path: str) -> float\<newline>'' @
      ''- download_from_url(url: str) -> str\<newline>'' @
      ''- download_from_youtube(youtube_url: str) -> str\<newline>'',
      w)"

text \<open>
  The declarations of the six tools (the \<^verbatim>\<open>def\<close> lines under \<^verbatim>\<open>@mcp.tool()\<close>), in the
  order of the file: name, parameters with annotation and default, return annotation.
\<close>

record parameter =
  param_name :: string
  annotation :: string
  default :: "string option"

record tool =
  tool_name :: string
  parameters :: "parameter list"
  returns :: string

definition tools :: "tool list" where
  "tools =
    [\<lparr>tool_name = ''get_tempo'',
      parameters =
       [\<lparr>param_name = ''file_path'', annotation = ''str'', default = None\<rparr>,
        \<lparr>param_name = ''offset'', annotation = ''float'', default = Some ''0.0''\<rparr>,
        \<lparr>param_name = ''duration'', annotation = ''float'', default = Some ''None''\<rparr>],
      returns = ''float''\<rparr>,
     \<lparr>tool_name = ''get_beats'',
      parameters =
       [\<lparr>param_name = ''file_path'', annotation = ''str'', default = None\<rparr>,
        \<lparr>param_name = ''offset'', annotation = ''float'', default = Some ''0.0''\<rparr>,
        \<lparr>param_name = ''duration'', annotation = ''float'', default = Some ''None''\<rparr>],
      returns = ''list''\<rparr>,
     \<lparr>tool_name = ''get_chroma'',
      parameters =
       [\<lparr>param_name = ''file_path'', annotation = ''str'', default = None\<rparr>,
        \<lparr>param_name = ''offset'', annotation = ''float'', default = Some ''0.0''\<rparr>,
        \<lparr>param_name = ''duration'', annotation = ''float'', default = Some ''None''\<rparr>,
        \<lparr>param_name = ''fmin'', annotation = ''float'', default = Some ''None''\<rparr>,
        \<lparr>param_name = ''n_octaves'', annotation = ''int'', default = Some ''7''\<rparr>,
        \<lparr>param_name = ''interval'', annotation = ''float'', default = Some ''1.0''\<rparr>],
      returns = ''list''\<rparr>,
     \<lparr>tool_name = ''get_duration'',
      parameters = [\<lparr>param_name = ''file_path'', annotation = ''str'', default = None\<rparr>],
      returns = ''float''\<rparr>,
     \<lparr>tool_name = ''download_from_url'',
      parameters = [\<lparr>param_name = ''url'', annotation = ''str'', default = None\<rparr>],
      returns = ''str''\<rparr>,
     \<lparr>tool_name = ''download_from_youtube'',
      parameters = [\<lparr>param_name = ''youtube_url'', annotation = ''str'', default = None\<rparr>],
      returns = ''str''\<rparr>]"

text \<open>A declaration written on one line, as Python writes a signature.\<close>

definition render_parameter :: "parameter \<Rightarrow> string" where
  "render_parameter p =
     param_name p @ '': '' @ annotation p @
       (case default p of None \<Rightarrow> [] | Some d \<Rightarrow> '' = '' @ d)"

fun join :: "string \<Rightarrow> string list \<Rightarrow> string" where
  "join sep [] = []"
| "join sep [x] = x"
| "join sep (x # xs) = x @ sep @ join sep xs"

definition signature :: "tool \<Rightarrow> string" where
  "signature t =
     tool_name t @ ''('' @ join '', '' (map render_parameter (parameters t)) @ '') -> '' @ returns t"

subsection \<open>A stand-in for librosa\<close>

text \<open>
  A small library to run the tools on: the signal is the list of the bytes of the
  file, every byte is one analysis frame, the chroma array has twelve rows, and the
  frame times and the duration follow librosa's defaults (a hop of 512 samples at
  22050 samples per second).
\<close>

definition stub_librosa :: "string librosa" where
  "stub_librosa =
     \<lparr>librosa_load = (\<lambda>b offset duration. if b = [] then None else Some b),
      librosa_beat_track = (\<lambda>y. Some (120, [0..<length y])),
      librosa_frames_to_time = (\<lambda>f. real f * 512 / 22050),
      librosa_chroma_cqt =
        (\<lambda>y fmin n_octaves.
           Some \<lparr>shape0 = 12, shape1 = length y, item = (\<lambda>i j. if j mod 12 = i then 1 else 0)\<rparr>),
      librosa_get_duration = (\<lambda>y. real (length y) * 512 / 22050)\<rparr>"

definition stub_world :: world where
  "stub_world = \<lparr>files = [''/tmp/a.wav'' \<mapsto> ''abc''], requests_log = []\<rparr>"


section \<open>Properties\<close>

subsection \<open>download_from_url\<close>

lemma endswith_iff_append: "endswith s suf \<longleftrightarrow> (\<exists>pre. s = pre @ suf)"
proof
  assume "endswith s suf"
  then have "s = take (length s - length suf) s @ suf"
    by (metis append_take_drop_id endswith_def)
  then show "\<exists>pre. s = pre @ suf" ..
next
  assume "\<exists>pre. s = pre @ suf"
  then show "endswith s suf"
    by (auto simp: endswith_def)
qed

lemma download_result_cases:
  "download_from_url get tmpdir w url =
     (if \<not> endswith url ''.mp3'' \<and> \<not> endswith url ''.wav''
      then (Inl (ValidationError url), w)
      else case get url of
          None \<Rightarrow> (Inl RequestException, w\<lparr>requests_log := requests_log w @ [url]\<rparr>)
        | Some r \<Rightarrow>
            if status_code r = 200
            then (Inr (os_path_join tmpdir ''downloaded_file''),
                  w\<lparr>requests_log := requests_log w @ [url],
                    files := (files w)(os_path_join tmpdir ''downloaded_file'' \<mapsto> content r)\<rparr>)
            else (Inl (FetchError url), w\<lparr>requests_log := requests_log w @ [url]\<rparr>))"
  by (simp add: download_from_url_def ValidationError_def FetchError_def Let_def split: option.split)

lemma ValidationError_distinct [simp]:
  "RequestException \<noteq> ValidationError u" "FetchError v \<noteq> ValidationError u"
  "ValidationError u \<noteq> RequestException" "ValidationError u \<noteq> FetchError v"
  by (simp_all add: ValidationError_def FetchError_def)

lemma FetchError_distinct [simp]:
  "RequestException \<noteq> FetchError u" "FetchError u \<noteq> RequestException"
  by (simp_all add: FetchError_def)

lemma FetchError_message: "\<exists>msg. FetchError url = ValueError msg \<and> sublist url msg"
proof -
  have "sublist url (''Failed to download file from URL: '' @ url @ [])"
    by (rule sublist_appendI)
  then show ?thesis by (simp add: FetchError_def)
qed

text \<open>
  C3. \<open>download_from_url\<close> raises the validation error exactly when the URL ends neither
  in \<open>.mp3\<close> nor in \<open>.wav\<close> (an exact, case-sensitive comparison of the last four
  characters), and when it does, no HTTP GET has been issued: the log of requests is
  the one before the call.
\<close>

theorem download_from_url_validation:
  "(fst (download_from_url get tmpdir w url) = Inl (ValidationError url))
     = (\<not> (\<exists>pre. url = pre @ ''.mp3'') \<and> \<not> (\<exists>pre. url = pre @ ''.wav''))
   \<and> (fst (download_from_url get tmpdir w url) = Inl (ValidationError url)
        \<longrightarrow> requests_log (snd (download_from_url get tmpdir w url)) = requests_log w)"
  by (simp add: download_result_cases endswith_iff_append [symmetric] split: option.split)

theorem download_from_url_validation_witness:
  "fst (download_from_url (\<lambda>u. Some \<lparr>status_code = 200, content = ''RIFF''\<rparr>) ''/tmp''
          \<lparr>files = Map.empty, requests_log = []\<rparr> ''http://x/y.txt'')
     = Inl (ValidationError ''http://x/y.txt'')
   \<and> requests_log (snd (download_from_url (\<lambda>u. Some \<lparr>status_code = 200, content = ''RIFF''\<rparr>) ''/tmp''
          \<lparr>files = Map.empty, requests_log = []\<rparr> ''http://x/y.txt'')) = []"
  using download_from_url_validation
    [of "\<lambda>u. Some \<lparr>status_code = 200, content = ''RIFF''\<rparr>" "''/tmp''"
        "\<lparr>files = Map.empty, requests_log = []\<rparr>" "''http://x/y.txt''"]
  by (simp add: endswith_iff_append [symmetric] endswith_def)

text \<open>
  C4. For a URL that passes the extension check, \<open>download_from_url\<close> raises the fetch
  error exactly when there is a response and its status code is not 200; the message of
  the error contains the URL.
\<close>

theorem download_from_url_fetch_error:
  "endswith url ''.mp3'' \<or> endswith url ''.wav'' \<Longrightarrow>
   (fst (download_from_url get tmpdir w url) = Inl (FetchError url))
     = (\<exists>r. get url = Some r \<and> status_code r \<noteq> 200)
   \<and> (\<exists>msg. FetchError url = ValueError msg \<and> sublist url msg)"
  by (simp add: download_result_cases FetchError_message split: option.split)

theorem download_from_url_fetch_error_witness:
  "(endswith ''http://x/y.wav'' ''.mp3'' \<or> endswith ''http://x/y.wav'' ''.wav'')
   \<and> fst (download_from_url (\<lambda>u. Some \<lparr>status_code = 404, content = ''Not Found''\<rparr>) ''/tmp''
          \<lparr>files = Map.empty, requests_log = []\<rparr> ''http://x/y.wav'')
       = Inl (FetchError ''http://x/y.wav'')
   \<and> fst (download_from_url (\<lambda>u. Some \<lparr>status_code = 200, content = ''RIFF''\<rparr>) ''/tmp''
          \<lparr>files = Map.empty, requests_log = []\<rparr> ''http://x/y.wav'')
       \<noteq> Inl (FetchError ''http://x/y.wav'')"
proof -
  have ext: "endswith ''http://x/y.wav'' ''.mp3'' \<or> endswith ''http://x/y.wav'' ''.wav''"
    by (simp add: endswith_def)
  show ?thesis
    using ext
      download_from_url_fetch_error [OF ext,
        of "\<lambda>u. Some \<lparr>status_code = 404, content = ''Not Found''\<rparr>" "''/tmp''"
           "\<lparr>files = Map.empty, requests_log = []\<rparr>"]
      download_from_url_fetch_error [OF ext,
        of "\<lambda>u. Some \<lparr>status_code = 200, content = ''RIFF''\<rparr>" "''/tmp''"
           "\<lparr>files = Map.empty, requests_log = []\<rparr>"]
    by simp
qed

text \<open>
  C5. A call with a valid extension and a response of status 200 returns the path of the
  file \<open>downloaded_file\<close> in the temporary directory, whatever the URL, and leaves the
  whole response body as the content of that file and every other file as it was. After
  a second such call the file holds the second body only.
\<close>

theorem download_from_url_overwrites:
  assumes "endswith url1 ''.mp3'' \<or> endswith url1 ''.wav''"
      and "get1 url1 = Some r1" and "status_code r1 = 200"
      and "endswith url2 ''.mp3'' \<or> endswith url2 ''.wav''"
      and "get2 url2 = Some r2" and "status_code r2 = 200"
  shows "let p = os_path_join tmpdir ''downloaded_file'';
             c1 = download_from_url get1 tmpdir w url1;
             c2 = download_from_url get2 tmpdir (snd c1) url2
         in fst c1 = Inr p \<and> files (snd c1) = (files w)(p \<mapsto> content r1)
          \<and> fst c2 = Inr p \<and> files (snd c2) = (files w)(p \<mapsto> content r2)
          \<and> files (snd c2) p = Some (content r2)"
  using assms by (simp add: download_result_cases Let_def)

theorem download_from_url_overwrites_witness:
  "let get1 = (\<lambda>u. Some \<lparr>status_code = 200, content = ''RIFF''\<rparr>);
       get2 = (\<lambda>u. Some \<lparr>status_code = 200, content = ''ID3''\<rparr>);
       w = \<lparr>files = Map.empty, requests_log = []\<rparr>;
       c1 = download_from_url get1 ''/tmp'' w ''http://x/a.wav'';
       c2 = download_from_url get2 ''/tmp'' (snd c1) ''http://x/b.mp3''
   in fst c1 = Inr ''/tmp/downloaded_file''
    \<and> files (snd c1) ''/tmp/downloaded_file'' = Some ''RIFF''
    \<and> fst c2 = Inr ''/tmp/downloaded_file''
    \<and> files (snd c2) ''/tmp/downloaded_file'' = Some ''ID3''"
proof -
  have e1: "endswith ''http://x/a.wav'' ''.mp3'' \<or> endswith ''http://x/a.wav'' ''.wav''"
    by (simp add: endswith_def)
  have e2: "endswith ''http://x/b.mp3'' ''.mp3'' \<or> endswith ''http://x/b.mp3'' ''.wav''"
    by (simp add: endswith_def)
  have g1: "(\<lambda>u::string. Some \<lparr>status_code = 200, content = ''RIFF''\<rparr>) ''http://x/a.wav''
              = Some \<lparr>status_code = 200, content = ''RIFF''\<rparr>" by simp
  have g2: "(\<lambda>u::string. Some \<lparr>status_code = 200, content = ''ID3''\<rparr>) ''http://x/b.mp3''
              = Some \<lparr>status_code = 200, content = ''ID3''\<rparr>" by simp
  have s1: "status_code \<lparr>status_code = 200, content = ''RIFF''\<rparr> = 200" by simp
  have s2: "status_code \<lparr>status_code = 200, content = ''ID3''\<rparr> = 200" by simp
  show ?thesis
    using download_from_url_overwrites [OF e1 g1 s1 e2 g2 s2,
        of "''/tmp''" "\<lparr>files = Map.empty, requests_log = []\<rparr>"]
    by (simp add: Let_def os_path_join_def)
qed

text \<open>
  C9. Whenever \<open>download_from_url\<close> raises, whichever the error, no file is written:
  every file, the download file included, has the content it had before the call.
\<close>

theorem download_from_url_no_write_on_error:
  "fst (download_from_url get tmpdir w url) = Inl e \<Longrightarrow>
   files (snd (download_from_url get tmpdir w url)) = files w"
  by (auto simp add: download_result_cases split: option.splits if_splits)

theorem download_from_url_no_write_on_error_witness:
  "fst (download_from_url (\<lambda>u. Some \<lparr>status_code = 404, content = ''x''\<rparr>) ''/tmp''
          \<lparr>files = [''/tmp/downloaded_file'' \<mapsto> ''old''], requests_log = []\<rparr> ''http://x/y.mp3'')
     = Inl (FetchError ''http://x/y.mp3'')
   \<and> files (snd (download_from_url (\<lambda>u. Some \<lparr>status_code = 404, content = ''x''\<rparr>) ''/tmp''
          \<lparr>files = [''/tmp/downloaded_file'' \<mapsto> ''old''], requests_log = []\<rparr> ''http://x/y.mp3''))
        ''/tmp/downloaded_file'' = Some ''old''"
proof -
  have err: "fst (download_from_url (\<lambda>u. Some \<lparr>status_code = 404, content = ''x''\<rparr>) ''/tmp''
          \<lparr>files = [''/tmp/downloaded_file'' \<mapsto> ''old''], requests_log = []\<rparr> ''http://x/y.mp3'')
     = Inl (FetchError ''http://x/y.mp3'')"
    by (simp add: download_from_url_def FetchError_def endswith_def)
  show ?thesis
    using err download_from_url_no_write_on_error [OF err] by simp
qed

subsection \<open>The loops of get_chroma\<close>

lemma frame_loop_eq:
  "frame_loop offset interval n zs acc =
     acc @ map (\<lambda>(t, a). \<lparr>sample_note = n, sample_time = t, sample_amplitude = a\<rparr>)
             (filter (\<lambda>(t, a). sampled offset interval t) zs)"
  by (induction zs arbitrary: acc) auto

lemma zip_times_row:
  "zip (map f [0..<n]) (map g [0..<n]) = map (\<lambda>j. (f j, g j)) [0..<n]"
  by (simp add: zip_map_map zip_same_conv_map)

lemma frame_loop_row:
  "frame_loop offset interval n (zip (map f [0..<m]) (map g [0..<m])) acc =
     acc @ map (\<lambda>j. \<lparr>sample_note = n, sample_time = f j, sample_amplitude = g j\<rparr>)
             (filter (\<lambda>j. sampled offset interval (f j)) [0..<m])"
  by (simp add: frame_loop_eq zip_times_row filter_map o_def)

lemma note_loop_eq:
  "note_loop offset interval c (map f [0..<shape1 c]) ins acc =
     (if \<forall>i \<in> fst ` set ins. i < shape0 c
      then Inr (acc @ concat (map (\<lambda>(i, n).
              map (\<lambda>j. \<lparr>sample_note = n, sample_time = f j, sample_amplitude = item c i j\<rparr>)
                (filter (\<lambda>j. sampled offset interval (f j)) [0..<shape1 c])) ins))
      else Inl IndexError)"
proof (induction ins arbitrary: acc)
  case Nil
  then show ?case by simp
next
  case (Cons p ins)
  obtain i n where p: "p = (i, n)" by (cases p)
  show ?case
    by (simp add: p row_def Cons.IH frame_loop_row)
qed

lemma length_notes: "length notes' = 12"
  by (simp add: notes'_def)

lemma fst_enumerate_notes: "fst ` set (enumerate 0 notes') = {0..<12}"
proof -
  have "fst ` set (enumerate 0 notes') = set (map fst (enumerate 0 notes'))"
    by (simp only: set_map)
  also have "\<dots> = {0..<12}"
    by (simp add: length_notes)
  finally show ?thesis .
qed

lemma distinct_notes: "distinct (map snd (enumerate 0 notes'))"
  by (simp add: notes'_def)

lemma get_chroma_cases:
  "get_chroma L w file_path offset duration fmin n_octaves interval =
     (case load L w file_path offset duration of
        Inl e \<Rightarrow> (Inl e, w)
      | Inr y \<Rightarrow>
          (case librosa_chroma_cqt L y fmin n_octaves of
             None \<Rightarrow> (Inl AnalysisError, w)
           | Some c \<Rightarrow>
               (if 12 \<le> shape0 c
                then Inr (concat (map (\<lambda>(i, n).
                  map (\<lambda>j. \<lparr>sample_note = n, sample_time = librosa_frames_to_time L j,
                             sample_amplitude = item c i j\<rparr>)
                    (filter (\<lambda>j. sampled offset interval (librosa_frames_to_time L j))
                       [0..<shape1 c])) (enumerate 0 notes')))
                else Inl IndexError, w)))"
  by (auto simp add: get_chroma_def Let_def note_loop_eq fst_enumerate_notes
      split: sum.split option.split)

lemma sampled_nonzero:
  "interval \<noteq> 0 \<Longrightarrow>
   sampled offset interval t = (t \<ge> offset \<and> \<bar>floor_mod t interval\<bar> < 1 / 100)"
  by (simp add: sampled_def np_remainder_def)

lemma sampled_zero: "sampled offset 0 t = False"
  by (simp add: sampled_def np_remainder_def)

lemma set_blocks:
  "set (concat (map (\<lambda>(i, n). map (S n i) (filter P js)) ins)) =
     {S n i j | i n j. (i, n) \<in> set ins \<and> j \<in> set js \<and> P j}"
  by (auto simp: image_iff)


lemma filter_note_absent:
  assumes "n \<notin> snd ` set ins"
  shows "filter (\<lambda>s. sample_note s = n)
           (concat (map (\<lambda>(i, nn). map (\<lambda>j. \<lparr>sample_note = nn, sample_time = f j,
              sample_amplitude = g i j\<rparr>) js) ins)) = []"
  using assms by (induction ins) (auto simp: filter_empty_conv)

lemma filter_note_block:
  "filter (\<lambda>s. sample_note s = n)
     (map (\<lambda>j. \<lparr>sample_note = nn, sample_time = f j, sample_amplitude = a j\<rparr>) js) =
   (if nn = n then map (\<lambda>j. \<lparr>sample_note = nn, sample_time = f j, sample_amplitude = a j\<rparr>) js
    else [])"
  by (induction js) auto

lemma sorted_filter_note:
  assumes "distinct (map snd ins)" and "sorted (map f js)"
  shows "sorted (map sample_time (filter (\<lambda>s. sample_note s = n)
           (concat (map (\<lambda>(i, nn). map (\<lambda>j. \<lparr>sample_note = nn, sample_time = f j,
              sample_amplitude = g i j\<rparr>) js) ins))))"
  using assms
proof (induction ins)
  case Nil
  then show ?case by simp
next
  case (Cons p ins)
  obtain i nn where p: "p = (i, nn)" by (cases p)
  show ?case
  proof (cases "nn = n")
    case True
    with Cons.prems p have "n \<notin> snd ` set ins" by auto
    then show ?thesis
      using Cons.prems True
      by (simp add: p filter_note_block filter_note_absent o_def)
  next
    case False
    then show ?thesis
      using Cons by (simp add: p filter_note_block)
  qed
qed

lemma sorted_times_of_frames:
  assumes "mono (f :: nat \<Rightarrow> real)"
  shows "sorted (map f (filter P [0..<m]))"
proof -
  have "sorted (filter P [0..<m])"
    by (simp add: sorted_wrt_filter)
  then have "sorted_wrt (\<lambda>x y. f x \<le> f y) (filter P [0..<m])"
    using assms by (auto intro: sorted_wrt_mono_rel simp: mono_def)
  then show ?thesis
    by (simp add: sorted_map)
qed

subsection \<open>Runs on the stand-in library\<close>

lemma stub_load:
  "load stub_librosa stub_world ''/tmp/a.wav'' offset duration = Inr ''abc''"
  by (simp add: load_def stub_librosa_def stub_world_def)

lemma stub_chroma_cqt:
  "librosa_chroma_cqt stub_librosa y fmin n_octaves =
     Some \<lparr>shape0 = 12, shape1 = length y, item = (\<lambda>i j. if j mod 12 = i then 1 else 0)\<rparr>"
  by (simp add: stub_librosa_def)

lemma stub_frames_to_time: "librosa_frames_to_time stub_librosa f = real f * 512 / 22050"
  by (simp add: stub_librosa_def)

lemma stub_chroma_unsorted:
  "\<exists>out'. fst (get_chroma stub_librosa stub_world ''/tmp/a.wav'' 0 None None 7 (1024 / 22050))
            = Inr out' \<and> \<not> sorted (map sample_time out')"
  by (simp add: get_chroma_cases stub_load stub_chroma_cqt stub_frames_to_time
       sampled_nonzero floor_mod_def notes'_def)

subsection \<open>get_chroma\<close>

text \<open>
  C1. With \<open>interval > 0\<close>, a call of \<open>get_chroma\<close> that returns gives the samples of
  the frames \<open>j\<close> whose time \<open>t\<close> satisfies \<open>t \<ge> offset\<close> and \<open>\<bar>t mod interval\<bar> < 1e-2\<close>,
  and no other: the list is the concatenation, over the twelve pitch classes in the order
  C, C#, \<dots>, B, of the samples of these frames in increasing frame order. So a pair of a
  pitch class and a frame time occurs in the output exactly when the time passes the test,
  the times of one pitch class ascend when frame times ascend with the frame index, and the
  whole list need not be sorted by time: the run on the stand-in library is not.
\<close>

theorem get_chroma_filter_and_order:
  assumes "0 < interval"
      and "fst (get_chroma L w file_path offset duration fmin n_octaves interval) = Inr out"
  shows "\<exists>y c. load L w file_path offset duration = Inr y
           \<and> librosa_chroma_cqt L y fmin n_octaves = Some c
           \<and> out = concat (map (\<lambda>(i, note_name).
                      map (\<lambda>j. \<lparr>sample_note = note_name,
                                 sample_time = librosa_frames_to_time L j,
                                 sample_amplitude = item c i j\<rparr>)
                        (filter (\<lambda>j. librosa_frames_to_time L j \<ge> offset
                                    \<and> \<bar>floor_mod (librosa_frames_to_time L j) interval\<bar> < 1 / 100)
                           [0..<shape1 c]))
                    (enumerate 0 notes'))
           \<and> (\<forall>i<12. \<forall>j<shape1 c.
                 ((notes' ! i, librosa_frames_to_time L j)
                    \<in> (\<lambda>s. (sample_note s, sample_time s)) ` set out)
                 = (librosa_frames_to_time L j \<ge> offset
                     \<and> \<bar>floor_mod (librosa_frames_to_time L j) interval\<bar> < 1 / 100))
           \<and> (mono (librosa_frames_to_time L) \<longrightarrow>
                 (\<forall>n. sorted (map sample_time (filter (\<lambda>s. sample_note s = n) out))))
           \<and> (\<exists>out'. fst (get_chroma stub_librosa stub_world ''/tmp/a.wav'' 0 None None 7
                             (1024 / 22050)) = Inr out'
                       \<and> \<not> sorted (map sample_time out'))"
proof -
  let ?ftt = "librosa_frames_to_time L"
  let ?P = "\<lambda>j. ?ftt j \<ge> offset \<and> \<bar>floor_mod (?ftt j) interval\<bar> < 1 / 100"
  from assms(1) have P: "(\<lambda>j. sampled offset interval (?ftt j)) = ?P"
    by (simp add: sampled_nonzero)
  obtain y c where y: "load L w file_path offset duration = Inr y"
    and c: "librosa_chroma_cqt L y fmin n_octaves = Some c"
    and out: "out = concat (map (\<lambda>(i, note_name).
                      map (\<lambda>j. \<lparr>sample_note = note_name, sample_time = ?ftt j,
                                 sample_amplitude = item c i j\<rparr>)
                        (filter ?P [0..<shape1 c])) (enumerate 0 notes'))"
    using assms(2) unfolding get_chroma_cases P
    by (auto split: sum.splits option.splits if_splits)
  have set_out: "set out = {\<lparr>sample_note = n, sample_time = ?ftt j, sample_amplitude = item c i j\<rparr>
                    | i n j. (i, n) \<in> set (enumerate 0 notes') \<and> j \<in> set [0..<shape1 c] \<and> ?P j}"
    unfolding out by (rule set_blocks)
  have iff: "((notes' ! i, ?ftt j) \<in> (\<lambda>s. (sample_note s, sample_time s)) ` set out) = ?P j"
    if "i < 12" and "j < shape1 c" for i j
  proof
    assume "(notes' ! i, ?ftt j) \<in> (\<lambda>s. (sample_note s, sample_time s)) ` set out"
    then obtain s where s: "s \<in> set out" and t: "sample_time s = ?ftt j"
      by auto
    from s obtain j' where "sample_time s = ?ftt j'" and "?P j'"
      unfolding set_out by auto
    with t show "?P j" by simp
  next
    assume Pj: "?P j"
    have "(i, notes' ! i) \<in> set (enumerate 0 notes')"
      using that(1) by (simp add: in_set_enumerate_eq length_notes)
    with Pj that(2)
    have "\<lparr>sample_note = notes' ! i, sample_time = ?ftt j, sample_amplitude = item c i j\<rparr>
            \<in> set out"
      unfolding set_out by auto
    then show "(notes' ! i, ?ftt j) \<in> (\<lambda>s. (sample_note s, sample_time s)) ` set out"
      by force
  qed
  have asc: "sorted (map sample_time (filter (\<lambda>s. sample_note s = n) out))"
    if "mono ?ftt" for n
    unfolding out
    by (rule sorted_filter_note [OF distinct_notes sorted_times_of_frames [OF that]])
  from y c out iff asc stub_chroma_unsorted show ?thesis
    by blast
qed

theorem get_chroma_filter_and_order_witness:
  "(0::real) < 1024 / 22050
   \<and> fst (get_chroma stub_librosa stub_world ''/tmp/a.wav'' 0 None None 7 (1024 / 22050)) =
       Inr [\<lparr>sample_note = ''C'', sample_time = 0, sample_amplitude = 1\<rparr>,
            \<lparr>sample_note = ''C'', sample_time = 1024 / 22050, sample_amplitude = 0\<rparr>,
            \<lparr>sample_note = ''C#'', sample_time = 0, sample_amplitude = 0\<rparr>,
            \<lparr>sample_note = ''C#'', sample_time = 1024 / 22050, sample_amplitude = 0\<rparr>,
            \<lparr>sample_note = ''D'', sample_time = 0, sample_amplitude = 0\<rparr>,
            \<lparr>sample_note = ''D'', sample_time = 1024 / 22050, sample_amplitude = 1\<rparr>,
            \<lparr>sample_note = ''D#'', sample_time = 0, sample_amplitude = 0\<rparr>,
            \<lparr>sample_note = ''D#'', sample_time = 1024 / 22050, sample_amplitude = 0\<rparr>,
            \<lparr>sample_note = ''E'', sample_time = 0, sample_amplitude = 0\<rparr>,
            \<lparr>sample_note = ''E'', sample_time = 1024 / 22050, sample_amplitude = 0\<rparr>,
            \<lparr>sample_note = ''F'', sample_time = 0, sample_amplitude = 0\<rparr>,
            \<lparr>sample_note = ''F'', sample_time = 1024 / 22050, sample_amplitude = 0\<rparr>,
            \<lparr>sample_note = ''F#'', sample_time = 0, sample_amplitude = 0\<rparr>,
            \<lparr>sample_note = ''F#'', sample_time = 1024 / 22050, sample_amplitude = 0\<rparr>,
            \<lparr>sample_note = ''G'', sample_time = 0, sample_amplitude = 0\<rparr>,
            \<lparr>sample_note = ''G'', sample_time = 1024 / 22050, sample_amplitude = 0\<rparr>,
            \<lparr>sample_note = ''G#'', sample_time = 0, sample_amplitude = 0\<rparr>,
            \<lparr>sample_note = ''G#'', sample_time = 1024 / 22050, sample_amplitude = 0\<rparr>,
            \<lparr>sample_note = ''A'', sample_time = 0, sample_amplitude = 0\<rparr>,
            \<lparr>sample_note = ''A'', sample_time = 1024 / 22050, sample_amplitude = 0\<rparr>,
            \<lparr>sample_note = ''A#'', sample_time = 0, sample_amplitude = 0\<rparr>,
            \<lparr>sample_note = ''A#'', sample_time = 1024 / 22050, sample_amplitude = 0\<rparr>,
            \<lparr>sample_note = ''B'', sample_time = 0, sample_amplitude = 0\<rparr>,
            \<lparr>sample_note = ''B'', sample_time = 1024 / 22050, sample_amplitude = 0\<rparr>]
   \<and> (notes' ! 0, librosa_frames_to_time stub_librosa 0)
         \<in> (\<lambda>s. (sample_note s, sample_time s)) `
            set (projr (fst (get_chroma stub_librosa stub_world ''/tmp/a.wav'' 0 None None 7 (1024 / 22050))))
   \<and> (notes' ! 0, librosa_frames_to_time stub_librosa 1)
         \<notin> (\<lambda>s. (sample_note s, sample_time s)) `
            set (projr (fst (get_chroma stub_librosa stub_world ''/tmp/a.wav'' 0 None None 7 (1024 / 22050))))
   \<and> (notes' ! 0, librosa_frames_to_time stub_librosa 2)
         \<in> (\<lambda>s. (sample_note s, sample_time s)) `
            set (projr (fst (get_chroma stub_librosa stub_world ''/tmp/a.wav'' 0 None None 7 (1024 / 22050))))
   \<and> mono (librosa_frames_to_time stub_librosa)
   \<and> sorted (map sample_time (filter (\<lambda>s. sample_note s = ''C'')
         (projr (fst (get_chroma stub_librosa stub_world ''/tmp/a.wav'' 0 None None 7 (1024 / 22050))))))"
proof -
  let ?out = "projr (fst (get_chroma stub_librosa stub_world ''/tmp/a.wav'' 0 None None 7 (1024 / 22050)))"
  have pos: "(0::real) < 1024 / 22050" by simp
  have run: "fst (get_chroma stub_librosa stub_world ''/tmp/a.wav'' 0 None None 7 (1024 / 22050)) =
       Inr [\<lparr>sample_note = ''C'', sample_time = 0, sample_amplitude = 1\<rparr>,
            \<lparr>sample_note = ''C'', sample_time = 1024 / 22050, sample_amplitude = 0\<rparr>,
            \<lparr>sample_note = ''C#'', sample_time = 0, sample_amplitude = 0\<rparr>,
            \<lparr>sample_note = ''C#'', sample_time = 1024 / 22050, sample_amplitude = 0\<rparr>,
            \<lparr>sample_note = ''D'', sample_time = 0, sample_amplitude = 0\<rparr>,
            \<lparr>sample_note = ''D'', sample_time = 1024 / 22050, sample_amplitude = 1\<rparr>,
            \<lparr>sample_note = ''D#'', sample_time = 0, sample_amplitude = 0\<rparr>,
            \<lparr>sample_note = ''D#'', sample_time = 1024 / 22050, sample_amplitude = 0\<rparr>,
            \<lparr>sample_note = ''E'', sample_time = 0, sample_amplitude = 0\<rparr>,
            \<lparr>sample_note = ''E'', sample_time = 1024 / 22050, sample_amplitude = 0\<rparr>,
            \<lparr>sample_note = ''F'', sample_time = 0, sample_amplitude = 0\<rparr>,
            \<lparr>sample_note = ''F'', sample_time = 1024 / 22050, sample_amplitude = 0\<rparr>,
            \<lparr>sample_note = ''F#'', sample_time = 0, sample_amplitude = 0\<rparr>,
            \<lparr>sample_note = ''F#'', sample_time = 1024 / 22050, sample_amplitude = 0\<rparr>,
            \<lparr>sample_note = ''G'', sample_time = 0, sample_amplitude = 0\<rparr>,
            \<lparr>sample_note = ''G'', sample_time = 1024 / 22050, sample_amplitude = 0\<rparr>,
            \<lparr>sample_note = ''G#'', sample_time = 0, sample_amplitude = 0\<rparr>,
            \<lparr>sample_note = ''G#'', sample_time = 1024 / 22050, sample_amplitude = 0\<rparr>,
            \<lparr>sample_note = ''A'', sample_time = 0, sample_amplitude = 0\<rparr>,
            \<lparr>sample_note = ''A'', sample_time = 1024 / 22050, sample_amplitude = 0\<rparr>,
            \<lparr>sample_note = ''A#'', sample_time = 0, sample_amplitude = 0\<rparr>,
            \<lparr>sample_note = ''A#'', sample_time = 1024 / 22050, sample_amplitude = 0\<rparr>,
            \<lparr>sample_note = ''B'', sample_time = 0, sample_amplitude = 0\<rparr>,
            \<lparr>sample_note = ''B'', sample_time = 1024 / 22050, sample_amplitude = 0\<rparr>]"
    by (simp add: get_chroma_cases stub_load stub_chroma_cqt stub_frames_to_time
         sampled_nonzero floor_mod_def notes'_def)
  then have out: "fst (get_chroma stub_librosa stub_world ''/tmp/a.wav'' 0 None None 7 (1024 / 22050)) = Inr ?out"
    by simp
  from get_chroma_filter_and_order [OF pos out]
  obtain y c where y: "load stub_librosa stub_world ''/tmp/a.wav'' 0 None = Inr y"
    and c: "librosa_chroma_cqt stub_librosa y None 7 = Some c"
    and iff: "\<forall>i<12. \<forall>j<shape1 c.
                 ((notes' ! i, librosa_frames_to_time stub_librosa j)
                    \<in> (\<lambda>s. (sample_note s, sample_time s)) ` set ?out)
                 = (librosa_frames_to_time stub_librosa j \<ge> 0
                     \<and> \<bar>floor_mod (librosa_frames_to_time stub_librosa j) (1024 / 22050)\<bar> < 1 / 100)"
    and asc: "mono (librosa_frames_to_time stub_librosa) \<longrightarrow>
                 (\<forall>n. sorted (map sample_time (filter (\<lambda>s. sample_note s = n) ?out)))"
    by blast
  from y have "y = ''abc''" by (simp add: stub_load)
  with c have shape: "shape1 c = 3" by (auto simp: stub_chroma_cqt)
  have in0: "(notes' ! 0, librosa_frames_to_time stub_librosa 0)
         \<in> (\<lambda>s. (sample_note s, sample_time s)) ` set ?out"
    using iff [rule_format, of 0 0] shape
    by (simp add: stub_frames_to_time floor_mod_def)
  have out1: "(notes' ! 0, librosa_frames_to_time stub_librosa 1)
         \<notin> (\<lambda>s. (sample_note s, sample_time s)) ` set ?out"
    using iff [rule_format, of 0 1] shape
    by (simp add: stub_frames_to_time floor_mod_def)
  have in2: "(notes' ! 0, librosa_frames_to_time stub_librosa 2)
         \<in> (\<lambda>s. (sample_note s, sample_time s)) ` set ?out"
    using iff [rule_format, of 0 2] shape
    by (simp add: stub_frames_to_time floor_mod_def)
  have mono: "mono (librosa_frames_to_time stub_librosa)"
    by (rule monoI) (simp add: stub_frames_to_time)
  with asc have "sorted (map sample_time (filter (\<lambda>s. sample_note s = ''C'') ?out))"
    by blast
  with pos run in0 out1 in2 mono show ?thesis by blast
qed



text \<open>
  C10, as the code behaves. With \<open>interval = 0\<close> nothing is raised by the test of line 89:
  the remainder of a numpy scalar by zero is nan, the comparison with \<open>1e-2\<close> is false for
  every frame, and \<open>get_chroma\<close> on a decodable file returns the empty list. The run below
  has a frame at time \<open>0 \<ge> offset\<close> and returns normally.
\<close>

theorem get_chroma_interval_zero:
  assumes "load L w file_path offset duration = Inr y"
      and "librosa_chroma_cqt L y fmin n_octaves = Some c"
      and "12 \<le> shape0 c"
  shows "get_chroma L w file_path offset duration fmin n_octaves 0 = (Inr [], w)"
  using assms by (simp add: get_chroma_cases sampled_zero)

theorem get_chroma_interval_zero_witness:
  "load stub_librosa stub_world ''/tmp/a.wav'' 0 None = Inr ''abc''
   \<and> librosa_chroma_cqt stub_librosa ''abc'' None 7 =
        Some \<lparr>shape0 = 12, shape1 = 3, item = (\<lambda>i j. if j mod 12 = i then 1 else 0)\<rparr>
   \<and> get_chroma stub_librosa stub_world ''/tmp/a.wav'' 0 None None 7 0 = (Inr [], stub_world)"
proof -
  have l: "load stub_librosa stub_world ''/tmp/a.wav'' 0 None = Inr ''abc''"
    by (rule stub_load)
  have c: "librosa_chroma_cqt stub_librosa ''abc'' None 7 =
        Some \<lparr>shape0 = 12, shape1 = 3, item = (\<lambda>i j. if j mod 12 = i then 1 else 0)\<rparr>"
    by (simp add: stub_chroma_cqt)
  have r: "12 \<le> shape0 \<lparr>shape0 = 12, shape1 = 3, item = (\<lambda>i j. if j mod 12 = i then 1 else 0)\<rparr>"
    by simp
  from l c get_chroma_interval_zero [OF l c r] show ?thesis by blast
qed

theorem get_chroma_interval_zero_counterexample:
  "0 < shape1 (the (librosa_chroma_cqt stub_librosa ''abc'' None 7))
   \<and> librosa_frames_to_time stub_librosa 0 \<ge> 0
   \<and> fst (get_chroma stub_librosa stub_world ''/tmp/a.wav'' 0 None None 7 0) = Inr []"
  by (simp add: get_chroma_cases stub_load stub_chroma_cqt stub_frames_to_time sampled_zero)

subsection \<open>analyze_audio\<close>

text \<open>
  C8. \<open>analyze_audio\<close> changes nothing and returns the same string on every call: the
  welcome text followed by one line per registered tool, in the order of registration,
  each line the signature of the tool as it is declared; the tools are the six of the file.
\<close>

theorem analyze_audio_static:
  "snd (analyze_audio w) = w
   \<and> fst (analyze_audio w) = fst (analyze_audio w')
   \<and> fst (analyze_audio w) =
       ''Welcome to the Music Analysis MCP! Please provide the path to an audio file and call the tools listed below to extract various audio features.\<newline>\<newline>Available tools:\<newline>''
       @ concat (map (\<lambda>t. ''- '' @ signature t @ ''\<newline>'') tools)
   \<and> map tool_name tools =
       [''get_tempo'', ''get_beats'', ''get_chroma'', ''get_duration'', ''download_from_url'',
        ''download_from_youtube'']"
  by (simp add: analyze_audio_def tools_def signature_def render_parameter_def)

end
